theory Spec2Isabelle
  imports Complex_Main
begin

section \<open>NumPy arrays\<close>

text \<open>
  The eigendecomposition notebook works on NumPy arrays. A 1-D array is the list of its
  entries. A 2-D array carries its shape, the number of rows and of columns, beside the
  list of its rows, so that an array with no rows still has its number of columns.

  The arithmetic on the entries belongs to the array's dtype: NumPy's \<open>float64\<close> rounds
  every sum and product, \<open>int64\<close> wraps. The model takes the addition, the multiplication
  and the zero of the dtype as a parameter and assumes no law of arithmetic about them;
  what is proved of the cells holds for rounded and for exact operations alike.

  The exceptions the notebook's calls can raise are values of \<open>error\<close>: NumPy raises
  \<open>LinAlgError\<close> from \<open>eig\<close> and \<open>inv\<close>, \<open>ValueError\<close> from \<open>dot\<close> on shapes that are
  not aligned and from \<open>numpy.random.seed\<close> on a seed out of range.
\<close>

datatype error = LinAlgError | ValueError

record 'a dtype =
  add :: "'a \<Rightarrow> 'a \<Rightarrow> 'a"
  mul :: "'a \<Rightarrow> 'a \<Rightarrow> 'a"
  zero :: 'a

datatype 'a array2 = Array2 (nrows: nat) (ncols: nat) (rows: "'a list list")

text \<open>\<open>A\<close> has the shape \<open>(m, n)\<close>, and its rows fit the shape.\<close>

definition is_mat :: "nat \<Rightarrow> nat \<Rightarrow> 'a array2 \<Rightarrow> bool" where
  "is_mat m n A \<longleftrightarrow>
     nrows A = m \<and> ncols A = n \<and> length (rows A) = m \<and>
     list_all (\<lambda>r. length r = n) (rows A)"

text \<open>The column \<open>A[:, j]\<close>.\<close>

definition col :: "'a array2 \<Rightarrow> nat \<Rightarrow> 'a list" where
  "col A j = map (\<lambda>r. r ! j) (rows A)"

text \<open>
  The sum of the products of two 1-D arrays, accumulated in index order. NumPy leaves the
  order of the accumulation to the BLAS it is built on; the theorems below compare products
  computed by this one function and rest on no property of the order.
\<close>

definition dotp :: "'a dtype \<Rightarrow> 'a list \<Rightarrow> 'a list \<Rightarrow> 'a" where
  "dotp dt u v = foldl (\<lambda>s (x, y). add dt s (mul dt x y)) (zero dt) (zip u v)"

definition matmul :: "'a dtype \<Rightarrow> 'a array2 \<Rightarrow> 'a array2 \<Rightarrow> 'a array2" where
  "matmul dt A B =
     Array2 (nrows A) (ncols B)
       (map (\<lambda>r. map (\<lambda>j. dotp dt r (col B j)) [0..<ncols B]) (rows A))"

text \<open>
  \<open>A.dot(B)\<close> for 2-D arrays: \<open>ValueError\<close> unless \<open>A\<close> has as many columns as \<open>B\<close> has rows.
\<close>

definition dot :: "'a dtype \<Rightarrow> 'a array2 \<Rightarrow> 'a array2 \<Rightarrow> error + 'a array2" where
  "dot dt A B = (if ncols A = nrows B then Inr (matmul dt A B) else Inl ValueError)"

text \<open>\<open>diag(values)\<close> on a 1-D array: the square array with \<open>values\<close> on its diagonal.\<close>

definition diag :: "'a dtype \<Rightarrow> 'a list \<Rightarrow> 'a array2" where
  "diag dt v =
     Array2 (length v) (length v)
       (map (\<lambda>i. map (\<lambda>j. if i = j then v ! i else zero dt) [0..<length v]) [0..<length v])"

section \<open>The reconstruction cell of the eigendecomposition notebook\<close>

type_synonym 'a inv_fn = "'a array2 \<Rightarrow> 'a array2 option"

text \<open>
  Cell "reconstruct matrix", after the call of \<open>eig\<close>:
  \<^verbatim>\<open>
  Q = vectors
  R = inv(Q)
  L = diag(values)
  B = Q.dot(L).dot(R)
  \<close>
\<close>

definition reconstruct ::
  "'a dtype \<Rightarrow> 'a inv_fn \<Rightarrow> 'a list \<times> 'a array2 \<Rightarrow> error + 'a array2" where
  "reconstruct dt inv_np es =
     (case es of (values, vectors) \<Rightarrow>
        (let Q = vectors in
           case inv_np Q of
             None \<Rightarrow> Inl LinAlgError
           | Some R \<Rightarrow>
               (let L = diag dt values in
                  case dot dt Q L of
                    Inl e \<Rightarrow> Inl e
                  | Inr QL \<Rightarrow> dot dt QL R)))"


section \<open>The reconstruction as the specification words it\<close>

text \<open>
  An EigenSet is the ordered collection of the eigenpairs \<open>(\<lambda>, v)\<close>. The notebook's
  \<open>(values, vectors)\<close> read as an EigenSet pairs \<open>values[i]\<close> with \<open>vectors[:, i]\<close>.
\<close>

type_synonym 'a eigenpair = "'a \<times> 'a list"

definition eigenset_of :: "'a list \<times> 'a array2 \<Rightarrow> 'a eigenpair list" where
  "eigenset_of es =
     (case es of (values, vectors) \<Rightarrow>
        map (\<lambda>i. (values ! i, col vectors i)) [0..<length values])"

text \<open>
  \<open>Q\<close>: the matrix whose columns are the eigenvectors in the EigenSet's order;
  \<open>D\<close>: the diagonal matrix of the eigenvalues in matching order;
  the result is \<open>Q \<cdot> D \<cdot> Q\<inverse>\<close>.
\<close>

definition spec_Q :: "'a eigenpair list \<Rightarrow> 'a array2" where
  "spec_Q ps =
     Array2 (length ps) (length ps)
       (map (\<lambda>i. map (\<lambda>j. snd (ps ! j) ! i) [0..<length ps]) [0..<length ps])"

definition spec_D :: "'a dtype \<Rightarrow> 'a eigenpair list \<Rightarrow> 'a array2" where
  "spec_D dt ps =
     Array2 (length ps) (length ps)
       (map (\<lambda>i. map (\<lambda>j. if i = j then fst (ps ! i) else zero dt) [0..<length ps])
          [0..<length ps])"

definition spec_reconstruct ::
  "'a dtype \<Rightarrow> 'a inv_fn \<Rightarrow> 'a eigenpair list \<Rightarrow> error + 'a array2" where
  "spec_reconstruct dt inv_np ps =
     (case inv_np (spec_Q ps) of
        None \<Rightarrow> Inl LinAlgError
      | Some Qinv \<Rightarrow> Inr (matmul dt (matmul dt (spec_Q ps) (spec_D dt ps)) Qinv))"

section \<open>Concrete inputs\<close>

text \<open>
  Exact arithmetic, as one dtype, and an exact inverse for 2 by 2 arrays (the adjugate over
  the determinant) that raises on every other shape: they instantiate the parameters of
  the cell on concrete inputs.
\<close>

definition exact :: "'a::comm_ring_1 dtype" where
  "exact = \<lparr>add = (+), mul = (*), zero = 0\<rparr>"

definition inv2 :: "'a::field inv_fn" where
  "inv2 Q =
     (case Q of
        Array2 m n [[a, b], [c, d]] \<Rightarrow>
          if m = 2 \<and> n = 2 \<and> a * d - b * c \<noteq> 0
          then Some (Array2 2 2 [[d / (a * d - b * c), - b / (a * d - b * c)],
                                 [- c / (a * d - b * c), a / (a * d - b * c)]])
          else None
      | _ \<Rightarrow> None)"









section \<open>The cells of the pseudorandom number generator notebook\<close>

text \<open>
  The generators are library code (Python's \<open>random\<close> module, \<open>numpy.random\<close>): each
  keeps a hidden state, here of a type \<open>'g\<close>, that seeding sets and every draw advances.
  The cells take the library's functions as parameters and thread the state; what a cell
  prints is a list of lines.
\<close>

datatype 'v line = Value 'v | Array "'v list" | Text string


text \<open>\<^verbatim>\<open>for _ in range(k): print(random())\<close>\<close>

fun print_randoms :: "('g \<Rightarrow> 'v \<times> 'g) \<Rightarrow> nat \<Rightarrow> 'g \<Rightarrow> 'v line list \<times> 'g" where
  "print_randoms random 0 g = ([], g)"
| "print_randoms random (Suc k) g =
     (case random g of (x, g') \<Rightarrow>
        (case print_randoms random k g' of (out, g'') \<Rightarrow> (Value x # out, g'')))"

text \<open>
  Cell "python pseudorandom number generator", with the seed \<open>7\<close> and the count \<open>5\<close> of the
  source as the parameters \<open>s\<close> and \<open>k\<close>:
  \<^verbatim>\<open>
  seed(7)
  for _ in range(5):
      print(random())
  print('Reseeded')
  seed(7)
  for _ in range(5):
      print(random())
  \<close>
  \<open>random.seed\<close> takes every integer.
\<close>

definition python_prng_demo ::
  "(int \<Rightarrow> 'g \<Rightarrow> 'g) \<Rightarrow> ('g \<Rightarrow> 'v \<times> 'g) \<Rightarrow> int \<Rightarrow> nat \<Rightarrow> 'g \<Rightarrow> 'v line list \<times> 'g" where
  "python_prng_demo seed random s k g0 =
     (let g1 = seed s g0 in
      case print_randoms random k g1 of (out1, g2) \<Rightarrow>
        (let g3 = seed s g2 in
         case print_randoms random k g3 of (out2, g4) \<Rightarrow>
           (out1 @ [Text ''Reseeded''] @ out2, g4)))"



text \<open>Seeding sets the whole state: what it leaves does not depend on the state before.\<close>

definition seed_resets :: "(int \<Rightarrow> 'g \<Rightarrow> 'g) \<Rightarrow> bool" where
  "seed_resets seed \<longleftrightarrow> (\<forall>s g g'. seed s g = seed s g')"




section \<open>Shapes and entries\<close>

lemma is_matD:
  assumes "is_mat m n A"
  shows "nrows A = m" and "ncols A = n" and "length (rows A) = m"
    and "\<And>i. i < m \<Longrightarrow> length (rows A ! i) = n"
  using assms by (simp_all add: is_mat_def list_all_length)

lemma array2_eqI:
  assumes "is_mat m n A" and "is_mat m n B"
    and "\<And>i j. i < m \<Longrightarrow> j < n \<Longrightarrow> rows A ! i ! j = rows B ! i ! j"
  shows "A = B"
proof (rule array2.expand, intro conjI)
  show "nrows A = nrows B" using assms(1,2) by (simp add: is_matD(1))
  show "ncols A = ncols B" using assms(1,2) by (simp add: is_matD(2))
  show "rows A = rows B"
  proof (rule nth_equalityI)
    show "length (rows A) = length (rows B)" using assms(1,2) by (simp add: is_matD(3))
  next
    fix i assume "i < length (rows A)"
    then have i: "i < m" using assms(1) by (simp add: is_matD(3))
    show "rows A ! i = rows B ! i"
    proof (rule nth_equalityI)
      show "length (rows A ! i) = length (rows B ! i)"
        using i assms(1,2) by (simp add: is_matD(4))
    next
      fix j assume "j < length (rows A ! i)"
      then have "j < n" using i assms(1) by (simp add: is_matD(4))
      then show "rows A ! i ! j = rows B ! i ! j" using i assms(3) by simp
    qed
  qed
qed

lemma is_mat_matmul:
  assumes "is_mat m n A" and "is_mat n p B"
  shows "is_mat m p (matmul dt A B)"
  using assms by (simp add: is_mat_def matmul_def list_all_length)

lemma is_mat_diag: "is_mat (length v) (length v) (diag dt v)"
  by (simp add: is_mat_def diag_def list_all_length)

lemma dot_aligned:
  assumes "is_mat m n A" and "is_mat n p B"
  shows "dot dt A B = Inr (matmul dt A B)"
  using assms by (simp add: dot_def is_matD(1,2))

text \<open>On arrays of fitting shapes the cell returns the product, or the error of \<open>inv\<close>.\<close>

lemma reconstruct_value:
  assumes Q: "is_mat n n vectors" and v: "length values = n"
    and R: "inv_np vectors = Some R" "is_mat n n R"
  shows "reconstruct dt inv_np (values, vectors) =
           Inr (matmul dt (matmul dt vectors (diag dt values)) R)"
proof -
  have D: "is_mat n n (diag dt values)" using is_mat_diag [of "values" dt] v by simp
  have QL: "is_mat n n (matmul dt vectors (diag dt values))" by (rule is_mat_matmul [OF Q D])
  show ?thesis
    by (simp add: reconstruct_def R(1) dot_aligned [OF Q D] dot_aligned [OF QL R(2)])
qed

lemma reconstruct_none:
  "inv_np vectors = None \<Longrightarrow> reconstruct dt inv_np (values, vectors) = Inl LinAlgError"
  by (simp add: reconstruct_def)


lemma spec_Q_eigenset_of:
  assumes Q: "is_mat n n vectors" and v: "length values = n"
  shows "spec_Q (eigenset_of (values, vectors)) = vectors"
proof (rule array2_eqI [where m = n and n = n])
  show "is_mat n n (spec_Q (eigenset_of (values, vectors)))"
    using v by (simp add: is_mat_def spec_Q_def eigenset_of_def list_all_length)
  show "is_mat n n vectors" by (rule Q)
next
  fix i j assume "i < n" and "j < n"
  then show "rows (spec_Q (eigenset_of (values, vectors))) ! i ! j = rows vectors ! i ! j"
    using v is_matD(3) [OF Q] by (simp add: spec_Q_def eigenset_of_def col_def)
qed

lemma spec_D_eigenset_of:
  "spec_D dt (eigenset_of (values, vectors)) = diag dt values"
  by (simp add: spec_D_def eigenset_of_def diag_def)

section \<open>Facts about the generator cells\<close>







text \<open>
  The contract is needed: with a \<open>seed\<close> that leaves part of the state as it was, some
  generator prints two different sequences.
\<close>

lemma seed_resets_needed:
  fixes seed :: "int \<Rightarrow> 'g \<Rightarrow> 'g"
  assumes "\<not> seed_resets seed"
  shows "\<exists>s g0 (random :: 'g \<Rightarrow> 'g \<times> 'g).
           \<not> (\<exists>out. fst (python_prng_demo seed random s (Suc 0) g0) =
                  out @ [Text ''Reseeded''] @ out)"
proof -
  from assms obtain s a b where ne: "seed s a \<noteq> seed s b"
    by (auto simp add: seed_resets_def)
  have v: "fst (python_prng_demo seed (\<lambda>x. (x, b)) s (Suc 0) a) =
           [Value (seed s a), Text ''Reseeded'', Value (seed s b)]"
    by (simp add: python_prng_demo_def)
  have "\<not> (\<exists>out. [Value (seed s a), Text ''Reseeded'', Value (seed s b)] =
                out @ [Text ''Reseeded''] @ out)"
  proof
    assume "\<exists>out. [Value (seed s a), Text ''Reseeded'', Value (seed s b)] =
                out @ [Text ''Reseeded''] @ out"
    then obtain out where o: "[Value (seed s a), Text ''Reseeded'', Value (seed s b)] =
                out @ [Text ''Reseeded''] @ out" by blast
    then have "length out = 1" by (cases out; cases "tl out") (auto simp add: append_eq_Cons_conv)
    then obtain x where "out = [x]" by (cases out) auto
    with o ne show False by auto
  qed
  with v show ?thesis by metis
qed

section \<open>The claims\<close>

text \<open>
  \<^bold>\<open>C3.\<close> The reconstruction cell computes \<open>Q \<cdot> D \<cdot> Q\<inverse>\<close> as the specification words it:
  on the EigenSet that pairs \<open>values[i]\<close> with the column \<open>vectors[:, i]\<close>, the matrix \<open>Q\<close>
  whose columns are the eigenvectors in order is \<open>vectors\<close>, the diagonal matrix \<open>D\<close> of the
  eigenvalues in matching order is \<open>diag(values)\<close>, and the cell returns the product, or
  the error of \<open>inv\<close>. The eigenvectors are the columns, not the rows. The statement holds
  whatever the arithmetic of the dtype.
\<close>

theorem reconstruct_is_Q_D_Qinv:
  assumes "is_mat n n vectors" and "length values = n"
    and "inv_np vectors = None \<or> (\<exists>R. inv_np vectors = Some R \<and> is_mat n n R)"
  shows "reconstruct dt inv_np (values, vectors) =
           spec_reconstruct dt inv_np (eigenset_of (values, vectors))"
proof -
  have Q: "spec_Q (eigenset_of (values, vectors)) = vectors"
    by (rule spec_Q_eigenset_of [OF assms(1,2)])
  have D: "spec_D dt (eigenset_of (values, vectors)) = diag dt values"
    by (rule spec_D_eigenset_of)
  from assms(3) show ?thesis
  proof
    assume "inv_np vectors = None"
    then show ?thesis by (simp add: reconstruct_none spec_reconstruct_def Q)
  next
    assume "\<exists>R. inv_np vectors = Some R \<and> is_mat n n R"
    then obtain R where R: "inv_np vectors = Some R" "is_mat n n R" by blast
    show ?thesis
      by (simp add: reconstruct_value [where inv_np = inv_np, OF assms(1,2) R] spec_reconstruct_def Q D R(1))
  qed
qed

text \<open>
  On \<open>values = [3, 1]\<close> and the columns \<open>(1, 1)\<close>, \<open>(1, -1)\<close>, the eigenpairs of
  \<open>[[2, 1], [1, 2]]\<close>, both sides are \<open>[[2, 1], [1, 2]]\<close>. Every number met on the way is a
  small multiple of \<open>1/2\<close>, so that \<open>float64\<close> computes what exact arithmetic computes.
\<close>

theorem reconstruct_is_Q_D_Qinv_witness:
  "is_mat 2 2 (Array2 2 2 [[1, 1], [1, - 1 :: real]]) \<and> length [3, 1 :: real] = 2 \<and>
   inv2 (Array2 2 2 [[1, 1], [1, - 1 :: real]]) =
     Some (Array2 2 2 [[1 / 2, 1 / 2], [1 / 2, - 1 / 2]]) \<and>
   is_mat 2 2 (Array2 2 2 [[1 / 2, 1 / 2], [1 / 2, - 1 / 2 :: real]]) \<and>
   reconstruct exact inv2 ([3, 1], Array2 2 2 [[1, 1], [1, - 1 :: real]]) =
     spec_reconstruct exact inv2 (eigenset_of ([3, 1], Array2 2 2 [[1, 1], [1, - 1 :: real]])) \<and>
   spec_reconstruct exact inv2 (eigenset_of ([3, 1], Array2 2 2 [[1, 1], [1, - 1 :: real]])) =
     Inr (Array2 2 2 [[2, 1], [1, 2]])"
proof -
  have Q: "is_mat 2 2 (Array2 2 2 [[1, 1], [1, - 1 :: real]])" by (simp add: is_mat_def)
  have v: "length [3, 1 :: real] = 2" by simp
  have R: "inv2 (Array2 2 2 [[1, 1], [1, - 1 :: real]]) =
      Some (Array2 2 2 [[1 / 2, 1 / 2], [1 / 2, - 1 / 2]])"
    by (simp add: inv2_def)
  have Rm: "is_mat 2 2 (Array2 2 2 [[1 / 2, 1 / 2], [1 / 2, - 1 / 2 :: real]])"
    by (simp add: is_mat_def)
  have h: "inv2 (Array2 2 2 [[1, 1], [1, - 1 :: real]]) = None \<or>
      (\<exists>R. inv2 (Array2 2 2 [[1, 1], [1, - 1 :: real]]) = Some R \<and> is_mat 2 2 R)"
    using R Rm by simp
  have s: "spec_reconstruct exact inv2
             (eigenset_of ([3, 1], Array2 2 2 [[1, 1], [1, - 1 :: real]])) =
           Inr (Array2 2 2 [[2, 1], [1, 2]])"
    by (simp add: spec_reconstruct_def spec_Q_def spec_D_def eigenset_of_def inv2_def
        matmul_def col_def dotp_def exact_def upt_rec)
  show ?thesis
    using Q v R Rm s reconstruct_is_Q_D_Qinv [where inv_np = inv2 and dt = exact, OF Q v h]
    by simp
qed







end
